theory Spec2Isabelle
  imports Main "HOL-Library.Word" "HOL-Library.Log_Nat"
begin

section \<open>JavaScript strings and arrays\<close>

text \<open>
  A JavaScript string is a sequence of 16-bit code units. A literal of Chat.jsx that is
  plain ASCII is written \<open>js ''...''\<close>; the emoji of the message texts are given by
  their code units.
\<close>

type_synonym codeunit = "16 word"
type_synonym jsstring = "codeunit list"

definition js :: "string \<Rightarrow> jsstring" where
  "js s = map of_char s"

text \<open>
  \<open>String.prototype.trim\<close> removes WhiteSpace and LineTerminator code points from
  both ends: TAB, LF, VT, FF, CR, SPACE, NBSP, U+1680, U+2000..U+200A, U+2028, U+2029,
  U+202F, U+205F, U+3000 and U+FEFF.
\<close>

definition isWhiteSpace :: "codeunit \<Rightarrow> bool" where
  "isWhiteSpace c \<longleftrightarrow>
     c = 9 \<or> c = 10 \<or> c = 11 \<or> c = 12 \<or> c = 13 \<or> c = 32 \<or> c = 160 \<or> c = 5760 \<or>
     (8192 \<le> c \<and> c \<le> 8202) \<or> c = 8232 \<or> c = 8233 \<or> c = 8239 \<or> c = 8287 \<or>
     c = 12288 \<or> c = 65279"

definition trimStart :: "jsstring \<Rightarrow> jsstring" where
  "trimStart s = dropWhile isWhiteSpace s"

definition trim :: "jsstring \<Rightarrow> jsstring" where
  "trim s = rev (dropWhile isWhiteSpace (rev (dropWhile isWhiteSpace s)))"

text \<open>A string is falsy exactly when it is empty.\<close>

definition truthyStr :: "jsstring \<Rightarrow> bool" where
  "truthyStr s \<longleftrightarrow> s \<noteq> []"

text \<open>
  \<open>s.split(sep)\<close> for a separator of one code unit. The result is never empty:
  \<open>''''.split('','')\<close> is the array holding the empty string.
\<close>

fun split :: "codeunit \<Rightarrow> jsstring \<Rightarrow> jsstring list" where
  "split sep [] = [[]]"
| "split sep (c # cs) =
     (if c = sep then [] # split sep cs
      else (case split sep cs of
              [] \<Rightarrow> [[c]]
            | w # ws \<Rightarrow> (c # w) # ws))"

definition newline :: codeunit where
  "newline = 10"

definition comma :: codeunit where
  "comma = 44"

text \<open>
  \<open>Array.prototype.slice(start, end)\<close>: a negative index counts from the end, and both
  indices are clamped to the array.
\<close>

definition relIndex :: "nat \<Rightarrow> int \<Rightarrow> nat" where
  "relIndex len i = (if i < 0 then nat (max (int len + i) 0) else min (nat i) len)"

definition slice :: "'a list \<Rightarrow> int \<Rightarrow> int \<Rightarrow> 'a list" where
  "slice xs start end' =
     (let k = relIndex (length xs) start; e = relIndex (length xs) end'
      in take (e - k) (drop k xs))"

definition sliceFrom :: "'a list \<Rightarrow> int \<Rightarrow> 'a list" where
  "sliceFrom xs start = drop (relIndex (length xs) start) xs"

text \<open>\<open>xs[i]\<close>: \<open>undefined\<close> (here \<open>None\<close>) when the index is out of range.\<close>

definition elemAt :: "'a list \<Rightarrow> int \<Rightarrow> 'a option" where
  "elemAt xs i = (if 0 \<le> i \<and> i < int (length xs) then Some (xs ! nat i) else None)"

text \<open>
  \<open>ToString\<close> of a value that is a string or \<open>undefined\<close>, as a template literal
  and \<open>parseFloat\<close> apply it.
\<close>

definition toStringOpt :: "jsstring option \<Rightarrow> jsstring" where
  "toStringOpt v = (case v of None \<Rightarrow> js ''undefined'' | Some s \<Rightarrow> s)"

definition isHighSurrogate :: "codeunit \<Rightarrow> bool" where
  "isHighSurrogate c \<longleftrightarrow> 55296 \<le> c \<and> c \<le> 56319"

definition isLowSurrogate :: "codeunit \<Rightarrow> bool" where
  "isLowSurrogate c \<longleftrightarrow> 56320 \<le> c \<and> c \<le> 57343"

text \<open>
  The conversion of a string to a USVString, which \<open>FormData.append\<close> applies to a
  value: a surrogate pair is kept, and every lone surrogate becomes U+FFFD.
\<close>

fun toUSVString :: "jsstring \<Rightarrow> jsstring" where
  "toUSVString [] = []"
| "toUSVString [c] = (if isHighSurrogate c \<or> isLowSurrogate c then [65533] else [c])"
| "toUSVString (c # d # cs) =
     (if isHighSurrogate c \<and> isLowSurrogate d then c # d # toUSVString cs
      else if isHighSurrogate c \<or> isLowSurrogate c then 65533 # toUSVString (d # cs)
      else c # toUSVString (d # cs))"

section \<open>JavaScript numbers\<close>

text \<open>
  A Number is an IEEE 754 binary64 value. \<open>Fin q\<close> carries the exact value of a finite
  double as a rational; the two zeros are one value here (the program only tests zero
  for truthiness, where they agree). \<open>toDouble\<close> is the rounding of a mathematical
  value to the nearest double, ties to even, with overflow to the infinities and
  underflow to zero.
\<close>

datatype jsnum = NaN | NegInf | Fin rat | PosInf

definition pow2 :: "int \<Rightarrow> rat" where
  "pow2 k = (if 0 \<le> k then 2 ^ nat k else 1 / 2 ^ nat (- k))"

definition pow10 :: "int \<Rightarrow> rat" where
  "pow10 k = (if 0 \<le> k then 10 ^ nat k else 1 / 10 ^ nat (- k))"

text \<open>\<open>ilog b a\<close> is the floor of the logarithm of \<open>a > 0\<close> to base \<open>b\<close>.\<close>

definition ilog :: "nat \<Rightarrow> rat \<Rightarrow> int" where
  "ilog b a =
     (if 1 \<le> a then int (floorlog b (nat \<lfloor>a\<rfloor>)) - 1
      else - int (floorlog b (nat (\<lceil>1 / a\<rceil> - 1))))"

definition roundHalfEven :: "rat \<Rightarrow> int" where
  "roundHalfEven r =
     (let f = \<lfloor>r\<rfloor>; d = r - of_int f
      in if d < 1 / 2 then f
         else if 1 / 2 < d then f + 1
         else if even f then f else f + 1)"

definition toDouble :: "rat \<Rightarrow> jsnum" where
  "toDouble q =
     (if q = 0 then Fin 0
      else
        let a = \<bar>q\<bar>;
            ex = max (ilog 2 a - 52) (- 1074);
            v = of_int (roundHalfEven (a / pow2 ex)) * pow2 ex
        in if 2 ^ 1024 \<le> v then (if q < 0 then NegInf else PosInf)
           else Fin (if q < 0 then - v else v))"

text \<open>The comparisons \<open><\<close> and \<open>\<le>\<close> of Numbers: false when an operand is NaN.\<close>

fun jslt :: "jsnum \<Rightarrow> jsnum \<Rightarrow> bool" where
  "jslt NaN _ = False"
| "jslt _ NaN = False"
| "jslt _ NegInf = False"
| "jslt NegInf _ = True"
| "jslt PosInf _ = False"
| "jslt (Fin a) PosInf = True"
| "jslt (Fin a) (Fin b) = (a < b)"

definition jsle :: "jsnum \<Rightarrow> jsnum \<Rightarrow> bool" where
  "jsle x y \<longleftrightarrow> x \<noteq> NaN \<and> y \<noteq> NaN \<and> \<not> jslt y x"

text \<open>
  \<open>Math.min(...xs)\<close> and \<open>Math.max(...xs)\<close>: NaN when an argument is NaN, otherwise the
  scan from \<open>+Infinity\<close> (from \<open>-Infinity\<close>), which is the result for no argument.
\<close>

definition Math_min :: "jsnum list \<Rightarrow> jsnum" where
  "Math_min xs =
     (if NaN \<in> set xs then NaN
      else foldl (\<lambda>lowest x. if jslt x lowest then x else lowest) PosInf xs)"

definition Math_max :: "jsnum list \<Rightarrow> jsnum" where
  "Math_max xs =
     (if NaN \<in> set xs then NaN
      else foldl (\<lambda>highest x. if jslt highest x then x else highest) NegInf xs)"

text \<open>A Number is falsy when it is zero or NaN; \<open>x || 0\<close> replaces a falsy \<open>x\<close> by 0.\<close>

definition truthyNum :: "jsnum \<Rightarrow> bool" where
  "truthyNum x \<longleftrightarrow> x \<noteq> NaN \<and> x \<noteq> Fin 0"

definition orZero :: "jsnum \<Rightarrow> jsnum" where
  "orZero x = (if truthyNum x then x else Fin 0)"

subsection \<open>Number to string\<close>

fun natToString :: "nat \<Rightarrow> jsstring" where
  "natToString n =
     (if n < 10 then [48 + of_nat n]
      else natToString (n div 10) @ [48 + of_nat (n mod 10)])"

declare natToString.simps [simp del]

text \<open>
  \<open>Number::toString\<close> of a finite positive double \<open>q\<close> takes integers \<open>n\<close>, \<open>k\<close>,
  \<open>s\<close> with \<open>k \<ge> 1\<close>, \<open>10^(k-1) \<le> s < 10^k\<close> and \<open>s * 10^(n-k)\<close> rounding to
  \<open>q\<close>, with \<open>k\<close> as small as possible and then \<open>s * 10^(n-k)\<close> closest to \<open>q\<close>.
  For a given \<open>k\<close> the closest such decimal is among the two neighbours of \<open>q\<close> in
  its own decade or the next one; 17 digits always suffice for a double.
\<close>

definition decimalOf :: "int \<Rightarrow> nat \<Rightarrow> nat \<Rightarrow> rat" where
  "decimalOf n k s = of_nat s * pow10 (n - int k)"

definition candidates :: "rat \<Rightarrow> nat \<Rightarrow> (int \<times> nat) list" where
  "candidates q k =
     concat (map (\<lambda>n. let f = nat \<lfloor>q / pow10 (n - int k)\<rfloor>
                      in filter (\<lambda>(n, s). 10 ^ (k - 1) \<le> s \<and> s < 10 ^ k \<and>
                                          toDouble (decimalOf n k s) = Fin q)
                           [(n, f), (n, f + 1)])
                 [ilog 10 q + 1, ilog 10 q + 2])"

definition closer :: "rat \<Rightarrow> nat \<Rightarrow> int \<times> nat \<Rightarrow> int \<times> nat \<Rightarrow> int \<times> nat" where
  "closer q k c d =
     (let dc = \<bar>decimalOf (fst c) k (snd c) - q\<bar>; dd = \<bar>decimalOf (fst d) k (snd d) - q\<bar>
      in if dd < dc \<or> (dd = dc \<and> odd (snd c)) then d else c)"

fun shortest :: "nat \<Rightarrow> rat \<Rightarrow> nat \<Rightarrow> int \<times> nat \<times> nat" where
  "shortest 0 q k =
     (ilog 10 q + 1, k, nat (roundHalfEven (q / pow10 (ilog 10 q + 1 - int k))))"
| "shortest (Suc fuel) q k =
     (case candidates q k of
        [] \<Rightarrow> shortest fuel q (Suc k)
      | c # cs \<Rightarrow> (let b = foldl (closer q k) c cs in (fst b, k, snd b)))"

definition formatDigits :: "int \<Rightarrow> nat \<Rightarrow> jsstring \<Rightarrow> jsstring" where
  "formatDigits n k ds =
     (if int k \<le> n \<and> n \<le> 21 then ds @ replicate (nat (n - int k)) 48
      else if 0 < n \<and> n \<le> 21 then take (nat n) ds @ [46] @ drop (nat n) ds
      else if - 6 < n \<and> n \<le> 0 then [48, 46] @ replicate (nat (- n)) 48 @ ds
      else
        let e = n - 1;
            ex = [101, if e < 0 then 45 else 43] @ natToString (nat \<bar>e\<bar>)
        in if k = 1 then ds @ ex else take 1 ds @ [46] @ drop 1 ds @ ex)"

definition posToString :: "rat \<Rightarrow> jsstring" where
  "posToString q =
     (case shortest 17 q 1 of (n, k, s) \<Rightarrow> formatDigits n k (natToString s))"

definition numToString :: "jsnum \<Rightarrow> jsstring" where
  "numToString x =
     (case x of
        NaN \<Rightarrow> js ''NaN''
      | PosInf \<Rightarrow> js ''Infinity''
      | NegInf \<Rightarrow> js ''-Infinity''
      | Fin q \<Rightarrow> if q = 0 then js ''0''
                 else if q < 0 then 45 # posToString (- q)
                 else posToString q)"

subsection \<open>parseFloat\<close>

text \<open>
  \<open>parseFloat\<close> skips leading white space and reads the longest prefix that is a
  StrDecimalLiteral: an optional sign, then \<open>Infinity\<close> or decimal digits with an
  optional fraction and an optional exponent. Without such a prefix the result is NaN.
\<close>

definition isDigit :: "codeunit \<Rightarrow> bool" where
  "isDigit c \<longleftrightarrow> 48 \<le> c \<and> c \<le> 57"

definition digitsVal :: "jsstring \<Rightarrow> nat" where
  "digitsVal ds = foldl (\<lambda>acc c. 10 * acc + (unat c - 48)) 0 ds"

definition parseSign :: "jsstring \<Rightarrow> bool \<times> jsstring" where
  "parseSign s =
     (case s of
        [] \<Rightarrow> (False, [])
      | c # r \<Rightarrow> if c = 45 then (True, r) else if c = 43 then (False, r) else (False, s))"

definition parseExponent :: "jsstring \<Rightarrow> int" where
  "parseExponent r =
     (case r of
        [] \<Rightarrow> 0
      | c # r' \<Rightarrow>
          if c = 101 \<or> c = 69
          then (case parseSign r' of
                  (neg, r'') \<Rightarrow>
                    let ds = takeWhile isDigit r''
                    in if ds = [] then 0
                       else if neg then - int (digitsVal ds) else int (digitsVal ds))
          else 0)"

definition parseFloat :: "jsstring \<Rightarrow> jsnum" where
  "parseFloat inputString =
     (case parseSign (trimStart inputString) of
        (neg, s) \<Rightarrow>
          if take 8 s = js ''Infinity'' then (if neg then NegInf else PosInf)
          else
            let ip = takeWhile isDigit s;
                r1 = dropWhile isDigit s;
                fp = (case r1 of [] \<Rightarrow> [] | c # r \<Rightarrow> if c = 46 then takeWhile isDigit r else []);
                r2 = (case r1 of [] \<Rightarrow> [] | c # r \<Rightarrow> if c = 46 then dropWhile isDigit r else r1)
            in if ip = [] \<and> fp = [] then NaN
               else toDouble ((if neg then - 1 else 1) * of_nat (digitsVal (ip @ fp)) *
                              pow10 (parseExponent r2 - int (length fp))))"

section \<open>Reading the CSV text\<close>

text \<open>
  \<open>text.split('\n').filter(line => line.trim())\<close>, the first step of both
  \<open>handleCsvFileChange\<close> and \<open>uploadCSV\<close>: a line is kept when it is not empty
  after trimming.
\<close>

definition csvLines :: "jsstring \<Rightarrow> jsstring list" where
  "csvLines txt = filter (\<lambda>line. truthyStr (trim line)) (split newline txt)"

definition minLines :: nat where
  "minLines = 50"

text \<open>\<open>const dataLines = lines.slice(1)\<close>\<close>

definition dataLines :: "jsstring list \<Rightarrow> jsstring list" where
  "dataLines lines = sliceFrom lines 1"

text \<open>
  \<open>dataLines.length >= minLines ? dataLines.slice(-minLines) : dataLines\<close>
\<close>

definition linesToProcess :: "jsstring list \<Rightarrow> jsstring list" where
  "linesToProcess lines =
     (if length (dataLines lines) \<ge> minLines
      then sliceFrom (dataLines lines) (- int minLines)
      else dataLines lines)"

section \<open>CSV to OHLC conversion\<close>

text \<open>
  The record built for one data line. Its keys in Chat.jsx are \<open>t\<close>, \<open>open\<close>,
  \<open>high\<close>, \<open>low\<close>, \<open>close\<close> and \<open>volume\<close>.
\<close>

record ohlc =
  ohlc_t :: jsstring
  ohlc_open :: jsnum
  ohlc_high :: jsnum
  ohlc_low :: jsnum
  ohlc_close :: jsnum
  ohlc_volume :: jsnum

text \<open>
  The function mapped over \<open>linesToProcess\<close>. \<open>now\<close> is what
  \<open>new Date().toISOString()\<close> returns when the line is converted.
\<close>

definition toOhlc :: "jsstring \<Rightarrow> jsstring \<Rightarrow> ohlc" where
  "toOhlc now line =
     (let values = split comma line
      in \<lparr> ohlc_t = (case elemAt values 0 of
                         Some v \<Rightarrow> if truthyStr v then v else now
                       | None \<Rightarrow> now),
           ohlc_open = orZero (parseFloat (toStringOpt (elemAt values 1))),
           ohlc_high = orZero (parseFloat (toStringOpt (elemAt values 2))),
           ohlc_low = orZero (parseFloat (toStringOpt (elemAt values 3))),
           ohlc_close = orZero (parseFloat (toStringOpt (elemAt values 4))),
           ohlc_volume = orZero (parseFloat (toStringOpt (elemAt values 5))) \<rparr>)"

text \<open>
  \<open>linesToProcess.map(line => ...)\<close>; \<open>clock i\<close> is the wall-clock time read while
  the line of index \<open>i\<close> is converted.
\<close>

definition ohlcData :: "(nat \<Rightarrow> jsstring) \<Rightarrow> jsstring list \<Rightarrow> ohlc list" where
  "ohlcData clock ls = map (\<lambda>(i, line). toOhlc (clock i) line) (enumerate 0 ls)"

subsection \<open>JSON.stringify of the records\<close>

definition hexDigit :: "nat \<Rightarrow> codeunit" where
  "hexDigit d = (if d < 10 then 48 + of_nat d else 87 + of_nat d)"

definition unicodeEscape :: "codeunit \<Rightarrow> jsstring" where
  "unicodeEscape c =
     [92, 117, hexDigit (unat c div 4096), hexDigit (unat c div 256 mod 16),
      hexDigit (unat c div 16 mod 16), hexDigit (unat c mod 16)]"

definition quoteUnit :: "codeunit \<Rightarrow> jsstring" where
  "quoteUnit c =
     (if c = 8 then [92, 98]
      else if c = 9 then [92, 116]
      else if c = 10 then [92, 110]
      else if c = 12 then [92, 102]
      else if c = 13 then [92, 114]
      else if c = 34 then [92, 34]
      else if c = 92 then [92, 92]
      else if c < 32 \<or> isHighSurrogate c \<or> isLowSurrogate c then unicodeEscape c
      else [c])"

text \<open>A surrogate pair is copied; a lone surrogate is escaped.\<close>

fun quoteUnits :: "jsstring \<Rightarrow> jsstring" where
  "quoteUnits [] = []"
| "quoteUnits [c] = quoteUnit c"
| "quoteUnits (c # d # cs) =
     (if isHighSurrogate c \<and> isLowSurrogate d then c # d # quoteUnits cs
      else quoteUnit c @ quoteUnits (d # cs))"

definition quoteJSONString :: "jsstring \<Rightarrow> jsstring" where
  "quoteJSONString s = [34] @ quoteUnits s @ [34]"

definition jsonNumber :: "jsnum \<Rightarrow> jsstring" where
  "jsonNumber x = (case x of Fin q \<Rightarrow> numToString x | _ \<Rightarrow> js ''null'')"

definition jsonKey :: "string \<Rightarrow> jsstring" where
  "jsonKey k = [34] @ js k @ [34, 58]"

definition jsonOhlc :: "ohlc \<Rightarrow> jsstring" where
  "jsonOhlc d =
     [123] @ jsonKey ''t'' @ quoteJSONString (ohlc_t d) @
     [44] @ jsonKey ''open'' @ jsonNumber (ohlc_open d) @
     [44] @ jsonKey ''high'' @ jsonNumber (ohlc_high d) @
     [44] @ jsonKey ''low'' @ jsonNumber (ohlc_low d) @
     [44] @ jsonKey ''close'' @ jsonNumber (ohlc_close d) @
     [44] @ jsonKey ''volume'' @ jsonNumber (ohlc_volume d) @ [125]"

fun joinWith :: "jsstring \<Rightarrow> jsstring list \<Rightarrow> jsstring" where
  "joinWith sep [] = []"
| "joinWith sep [x] = x"
| "joinWith sep (x # y # ys) = x @ sep @ joinWith sep (y # ys)"

definition JSON_stringify :: "ohlc list \<Rightarrow> jsstring" where
  "JSON_stringify ds = [91] @ joinWith [44] (map jsonOhlc ds) @ [93]"

subsection \<open>The summary text\<close>

text \<open>
  The template literal bound to the local \<open>csvPreview\<close> of \<open>uploadCSV\<close>. Its two
  emoji are U+1F4CA and U+1F4C8, each a surrogate pair.
\<close>

definition summaryText :: "ohlc list \<Rightarrow> jsstring" where
  "summaryText ds =
     [55357, 56522] @ js '' CSV uploaded and analyzed'' @ [newline, newline] @
     [55357, 56520] @ js '' Data Summary:'' @ [newline] @
     js ''- Total lines processed: '' @ natToString (length ds) @ [newline] @
     js ''- Date range: '' @ toStringOpt (map_option ohlc_t (elemAt ds 0)) @
     js '' to '' @ toStringOpt (map_option ohlc_t (elemAt ds (int (length ds) - 1))) @
     [newline] @
     js ''- Price range: $'' @ numToString (Math_min (map ohlc_low ds)) @
     js '' - $'' @ numToString (Math_max (map ohlc_high ds))"

section \<open>Values of a response body\<close>

text \<open>
  What \<open>res.json()\<close> resolves to, and \<open>undefined\<close> for a property that is absent.
  An object is the list of its own properties.
\<close>

datatype jsval =
    Undefined
  | Null
  | Bool bool
  | Num jsnum
  | Str jsstring
  | Arr "jsval list"
  | Obj "(jsstring \<times> jsval) list"

datatype js_error = TypeError | SyntaxError | NetworkError | NotReadableError

text \<open>
  \<open>data.response\<close> and \<open>data.analysis\<close>: reading a property of \<open>null\<close> or
  \<open>undefined\<close> throws a TypeError; a primitive or an array has neither property.
\<close>

definition getProp :: "jsval \<Rightarrow> jsstring \<Rightarrow> js_error + jsval" where
  "getProp v k =
     (case v of
        Undefined \<Rightarrow> Inl TypeError
      | Null \<Rightarrow> Inl TypeError
      | Obj kvs \<Rightarrow> Inr (case map_of kvs k of None \<Rightarrow> Undefined | Some x \<Rightarrow> x)
      | _ \<Rightarrow> Inr Undefined)"

definition truthy :: "jsval \<Rightarrow> bool" where
  "truthy v =
     (case v of
        Undefined \<Rightarrow> False
      | Null \<Rightarrow> False
      | Bool b \<Rightarrow> b
      | Num x \<Rightarrow> truthyNum x
      | Str s \<Rightarrow> truthyStr s
      | _ \<Rightarrow> True)"

section \<open>The component state and the outside world\<close>

datatype sender = User | Assistant | System

record message =
  sender :: sender
  msg_text :: jsval

datatype backend_status = Checking | Connected | Disconnected | BackendError

text \<open>A selected File; \<open>fileText\<close> is \<open>None\<close> when \<open>file.text()\<close> rejects.\<close>

record js_file =
  fileName :: jsstring
  fileText :: "jsstring option"

record csv_preview =
  headers :: "jsstring list"
  preview :: "jsstring list"
  totalLines :: int

record state =
  messages :: "message list"
  input :: jsstring
  csvFile :: "js_file option"
  loading :: bool
  backendStatus :: backend_status
  csvPreview :: "csv_preview option"

definition initialState :: state where
  "initialState =
     \<lparr> messages = [], input = [], csvFile = None, loading = False,
       backendStatus = Checking, csvPreview = None \<rparr>"

text \<open>
  The outcome of one \<open>fetch\<close>: the promise rejects, or it resolves to a response with
  a status code and a body; \<open>body\<close> is \<open>None\<close> when \<open>res.json()\<close> rejects.
\<close>

record response =
  status :: nat
  body :: "jsval option"

datatype fetch_result = Rejected | Resolved response

definition ok :: "response \<Rightarrow> bool" where
  "ok res \<longleftrightarrow> 200 \<le> status res \<and> status res \<le> 299"

text \<open>
  The requests an action issues, in order. The fields of a form are those of its
  \<open>FormData\<close>, each value as \<open>append\<close> stores it.
\<close>

datatype request =
    Get jsstring
  | PostForm jsstring "(jsstring \<times> jsstring) list"

definition appendMessage :: "message \<Rightarrow> state \<Rightarrow> state" where
  "appendMessage m s = s\<lparr>messages := messages s @ [m]\<rparr>"

section \<open>The actions of Chat.jsx\<close>

text \<open>
  Each action is run from the state in which it is invoked to the state after its last
  update, with the outcome of its one \<open>fetch\<close> given; it returns the new state and the
  requests issued.
\<close>

definition checkBackendHealth :: "fetch_result \<Rightarrow> state \<Rightarrow> state \<times> request list" where
  "checkBackendHealth net s =
     (case net of
        Rejected \<Rightarrow> s\<lparr>backendStatus := Disconnected\<rparr>
      | Resolved res \<Rightarrow>
          if ok res
          then (case body res of
                  None \<Rightarrow> s\<lparr>backendStatus := Disconnected\<rparr>
                | Some data \<Rightarrow> s\<lparr>backendStatus := Connected\<rparr>)
          else s\<lparr>backendStatus := BackendError\<rparr>,
      [Get (js ''http://localhost:8000/health'')])"

text \<open>
  \<open>handleCsvFileChange(file)\<close>. Reading \<open>lines[0]\<close> of an empty array gives
  \<open>undefined\<close>, whose \<open>split\<close> throws inside the \<open>try\<close>.
\<close>

definition buildPreview :: "js_file \<Rightarrow> js_error + csv_preview" where
  "buildPreview f =
     (case fileText f of
        None \<Rightarrow> Inl NotReadableError
      | Some txt \<Rightarrow>
          let lines = csvLines txt
          in (case elemAt lines 0 of
                None \<Rightarrow> Inl TypeError
              | Some l0 \<Rightarrow>
                  Inr \<lparr> headers = split comma l0,
                        preview = slice lines 1 6,
                        totalLines = int (length lines) - 1 \<rparr>))"

definition handleCsvFileChange :: "js_file option \<Rightarrow> state \<Rightarrow> state" where
  "handleCsvFileChange file s =
     (let s1 = s\<lparr>csvFile := file\<rparr>
      in case file of
           Some f \<Rightarrow>
             (case buildPreview f of
                Inr p \<Rightarrow> s1\<lparr>csvPreview := Some p\<rparr>
              | Inl e \<Rightarrow> s1\<lparr>csvPreview := None\<rparr>)
         | None \<Rightarrow> s1\<lparr>csvPreview := None\<rparr>)"

definition chatErrorText :: jsstring where
  "chatErrorText =
     10060 # js '' Error connecting to backend. Make sure the server is running on port 8000.''"

text \<open>
  The \<open>try\<close> block of \<open>sendMessage\<close> after the request is sent: the text of the
  assistant message, \<open>data.response || data.analysis\<close>, or what is thrown.
\<close>

definition chatReply :: "fetch_result \<Rightarrow> js_error + jsval" where
  "chatReply net =
     (case net of
        Rejected \<Rightarrow> Inl NetworkError
      | Resolved res \<Rightarrow>
          (case body res of
             None \<Rightarrow> Inl SyntaxError
           | Some data \<Rightarrow>
               (case getProp data (js ''response'') of
                  Inl e \<Rightarrow> Inl e
                | Inr r \<Rightarrow> if truthy r then Inr r else getProp data (js ''analysis''))))"

definition sendMessage :: "fetch_result \<Rightarrow> state \<Rightarrow> state \<times> request list" where
  "sendMessage net s =
     (if \<not> truthyStr (trim (input s)) then (s, [])
      else
        let s1 = s\<lparr>loading := True\<rparr>;
            s2 = appendMessage \<lparr>sender = User, msg_text = Str (input s)\<rparr> s1;
            req = PostForm (js ''http://localhost:8000/chat'') [(js ''prompt'', toUSVString (input s))];
            s3 = (case chatReply net of
                    Inr reply \<Rightarrow> appendMessage \<lparr>sender = Assistant, msg_text = reply\<rparr> s2
                  | Inl e \<Rightarrow>
                      appendMessage \<lparr>sender = System, msg_text = Str chatErrorText\<rparr> s2)
        in (s3\<lparr>input := [], loading := False\<rparr>, [req]))"

definition csvErrorText :: jsstring where
  "csvErrorText = 10060 # js '' Failed to upload and analyze CSV''"

definition question :: "jsstring \<Rightarrow> jsstring" where
  "question inp = (if truthyStr inp then inp else js ''Analyze this CSV data'')"

text \<open>
  The \<open>try\<close> block of \<open>uploadCSV\<close>: the state and the requests reached, and what was
  thrown, if anything. The summary is appended once \<open>fetch\<close> and \<open>res.json()\<close> have
  both resolved; \<open>data.analysis\<close> is read after that.
\<close>

definition uploadCSV_try ::
  "(nat \<Rightarrow> jsstring) \<Rightarrow> fetch_result \<Rightarrow> js_file \<Rightarrow> state \<Rightarrow> state \<times> request list \<times> js_error option"
where
  "uploadCSV_try clock net f s =
     (case fileText f of
        None \<Rightarrow> (s, [], Some NotReadableError)
      | Some txt \<Rightarrow>
          let lines = csvLines txt
          in (case elemAt lines 0 of
                None \<Rightarrow> (s, [], Some TypeError)
              | Some l0 \<Rightarrow>
                  let ds = ohlcData clock (linesToProcess lines);
                      req = PostForm (js ''http://localhost:8000/analyze'')
                              [(js ''question'', toUSVString (question (input s))),
                               (js ''ohlc_json'', toUSVString (JSON_stringify ds))]
                  in (case net of
                        Rejected \<Rightarrow> (s, [req], Some NetworkError)
                      | Resolved res \<Rightarrow>
                          (case body res of
                             None \<Rightarrow> (s, [req], Some SyntaxError)
                           | Some data \<Rightarrow>
                               let s1 = appendMessage
                                          \<lparr>sender = System, msg_text = Str (summaryText ds)\<rparr> s
                               in (case getProp data (js ''analysis'') of
                                     Inl e \<Rightarrow> (s1, [req], Some e)
                                   | Inr a \<Rightarrow>
                                       if truthy a
                                       then (appendMessage
                                               \<lparr>sender = Assistant, msg_text = a\<rparr> s1,
                                             [req], None)
                                       else (s1, [req], None))))))"

definition uploadCSV ::
  "(nat \<Rightarrow> jsstring) \<Rightarrow> fetch_result \<Rightarrow> state \<Rightarrow> state \<times> request list"
where
  "uploadCSV clock net s =
     (case csvFile s of
        None \<Rightarrow> (s, [])
      | Some f \<Rightarrow>
          (case uploadCSV_try clock net f (s\<lparr>loading := True\<rparr>) of
             (s1, reqs, thrown) \<Rightarrow>
               let s2 = (case thrown of
                           None \<Rightarrow> s1
                         | Some e \<Rightarrow>
                             appendMessage \<lparr>sender = System, msg_text = Str csvErrorText\<rparr> s1)
               in (s2\<lparr>csvFile := None, csvPreview := None, loading := False\<rparr>, reqs)))"

section \<open>The conversion of one line, in the words of the specification\<close>

text \<open>
  Column 0 is the timestamp, with the current time as fallback when the column is empty
  or absent; a numeric column is parsed, with 0 as fallback when parsing fails (no
  number is read) or the column is absent.
\<close>

definition spec_timestamp :: "jsstring \<Rightarrow> jsstring option \<Rightarrow> jsstring" where
  "spec_timestamp now column =
     (case column of None \<Rightarrow> now | Some v \<Rightarrow> if v = [] then now else v)"

definition spec_number :: "jsstring option \<Rightarrow> jsnum" where
  "spec_number column =
     (case column of
        None \<Rightarrow> Fin 0
      | Some v \<Rightarrow> if parseFloat v = NaN then Fin 0 else parseFloat v)"

section \<open>Example inputs\<close>

definition fixedClock :: "nat \<Rightarrow> jsstring" where
  "fixedClock i = js ''2024-01-01T00:00:00.000Z''"

definition scenarioCsv :: jsstring where
  "scenarioCsv =
     js ''timestamp,open,high,low,close,volume'' @ [newline] @
     js ''t1,10,12,9,11,100'' @ [newline] @
     js ''t2,11,13,10,12,110'' @ [newline] @
     js ''t3,12,14,11,13,120''"

definition headerOnlyCsv :: jsstring where
  "headerOnlyCsv = js ''timestamp,open,high,low,close,volume'' @ [newline]"

text \<open>A header line \<open>h\<close> followed by \<open>n\<close> data lines \<open>x\<close>, \<open>xx\<close>, \<open>xxx\<close>, ...\<close>

definition rowsCsv :: "nat \<Rightarrow> jsstring" where
  "rowsCsv n = js ''h'' @ concat (map (\<lambda>i. newline # replicate (Suc i) 120) [0..<n])"

definition csvNamed :: "jsstring \<Rightarrow> js_file" where
  "csvNamed txt = \<lparr>fileName = js ''prices.csv'', fileText = Some txt\<rparr>"

definition withFile :: "jsstring \<Rightarrow> state" where
  "withFile txt = initialState\<lparr>csvFile := Some (csvNamed txt)\<rparr>"

definition withInput :: "jsstring \<Rightarrow> state" where
  "withInput inp = initialState\<lparr>input := inp\<rparr>"

definition replied :: "nat \<Rightarrow> jsval \<Rightarrow> fetch_result" where
  "replied code data = Resolved \<lparr>status = code, body = Some data\<rparr>"

definition unreadable :: "nat \<Rightarrow> fetch_result" where
  "unreadable code = Resolved \<lparr>status = code, body = None\<rparr>"

section \<open>Basic facts\<close>

lemma js_Nil [simp]: "js [] = []"
  by (simp add: js_def)

lemma trim_Nil [simp]: "trim [] = []"
  by (simp add: trim_def)

lemma trim_two_spaces: "trim [32, 32] = []"
  by (simp add: trim_def isWhiteSpace_def)

lemma trim_hi: "trim [104, 105] = [104, 105]"
  by (simp add: trim_def isWhiteSpace_def)

lemma split_not_Nil: "split sep s \<noteq> []"
  by (induction s) (auto split: list.splits)

lemma sliceFrom_nonneg: "0 \<le> i \<Longrightarrow> sliceFrom xs i = drop (nat i) xs"
  by (cases "nat i \<le> length xs") (simp_all add: sliceFrom_def relIndex_def min_def)

lemma sliceFrom_neg: "i < 0 \<Longrightarrow> sliceFrom xs i = drop (length xs - nat (- i)) xs"
proof -
  assume "i < 0"
  then have "nat (max (int (length xs) + i) 0) = length xs - nat (- i)"
    by linarith
  with \<open>i < 0\<close> show ?thesis
    by (simp add: sliceFrom_def relIndex_def)
qed

lemma dataLines_eq: "dataLines lines = drop 1 lines"
  by (simp add: dataLines_def sliceFrom_nonneg)

lemma linesToProcess_eq:
  "linesToProcess lines = drop (length (drop 1 lines) - 50) (drop 1 lines)"
  by (simp add: linesToProcess_def dataLines_eq sliceFrom_neg minLines_def)

lemma messages_appendMessage [simp]: "messages (appendMessage m s) = messages s @ [m]"
  by (simp add: appendMessage_def)

lemma input_appendMessage [simp]: "input (appendMessage m s) = input s"
  by (simp add: appendMessage_def)

lemma loading_appendMessage [simp]: "loading (appendMessage m s) = loading s"
  by (simp add: appendMessage_def)

lemma csvFile_appendMessage [simp]: "csvFile (appendMessage m s) = csvFile s"
  by (simp add: appendMessage_def)

lemma withInput_simps [simp]:
  "input (withInput inp) = inp" "messages (withInput inp) = []"
  "csvFile (withInput inp) = None" "loading (withInput inp) = False"
  by (simp_all add: withInput_def initialState_def)

lemma withFile_simps [simp]:
  "input (withFile txt) = []" "messages (withFile txt) = []"
  "csvFile (withFile txt) = Some (csvNamed txt)" "loading (withFile txt) = False"
  "fileText (csvNamed txt) = Some txt"
  by (simp_all add: withFile_def csvNamed_def initialState_def)

lemma elemAt_0: "elemAt xs 0 = (case xs of [] \<Rightarrow> None | x # _ \<Rightarrow> Some x)"
  by (simp add: elemAt_def split: list.splits)

lemma slice_1_6: "slice xs 1 6 = take 5 (drop 1 xs)"
proof (cases xs)
  case Nil
  then show ?thesis by (simp add: slice_def relIndex_def)
next
  case (Cons x ys)
  have "min 6 (Suc (length ys)) - Suc 0 = min 5 (length ys)"
    by simp
  moreover have "take (min 5 (length ys)) ys = take 5 ys"
    by (cases "5 \<le> length ys") (simp_all add: min_def)
  ultimately show ?thesis
    using Cons by (simp add: slice_def relIndex_def)
qed

lemma split_no_sep: "sep \<notin> set s \<Longrightarrow> split sep s = [s]"
  by (induction s) auto

lemma split_append_sep:
  "sep \<notin> set h \<Longrightarrow> split sep (h @ sep # t) = h # split sep t"
  by (induction h) auto

lemma split_rows:
  assumes "sep \<notin> set h" and "\<forall>l\<in>set ls. sep \<notin> set l"
  shows "split sep (h @ concat (map ((#) sep) ls)) = h # ls"
  using assms
proof (induction ls arbitrary: h)
  case Nil
  then show ?case by (simp add: split_no_sep)
next
  case (Cons l ls)
  then show ?case by (simp add: split_append_sep)
qed

lemma trim_not_Nil: "s \<noteq> [] \<Longrightarrow> \<not> isWhiteSpace (hd s) \<Longrightarrow> trim s \<noteq> []"
proof -
  assume s: "s \<noteq> []" and h: "\<not> isWhiteSpace (hd s)"
  then have d: "dropWhile isWhiteSpace s = s"
    by (cases s) auto
  from s h have "last (rev s) = hd s"
    by (simp add: last_rev)
  with s h have "dropWhile isWhiteSpace (rev s) \<noteq> []"
    by (metis dropWhile_eq_Nil_conv last_in_set rev_is_Nil_conv)
  with d show ?thesis
    by (simp add: trim_def)
qed

lemma trim_row: "trim (replicate (Suc i) 120) \<noteq> []"
  using trim_not_Nil [of "replicate (Suc i) 120"] by (simp add: isWhiteSpace_def)

lemma csvLines_rowsCsv:
  "csvLines (rowsCsv n) = js ''h'' # map (\<lambda>i. replicate (Suc i) 120) [0..<n]"
proof -
  have "split newline (rowsCsv n) = js ''h'' # map (\<lambda>i. replicate (Suc i) 120) [0..<n]"
    using split_rows [of newline "js ''h''" "map (\<lambda>i. replicate (Suc i) 120) [0..<n]"]
    by (simp add: rowsCsv_def newline_def js_def comp_def)
  moreover have "truthyStr (trim (js ''h''))"
    by (simp add: truthyStr_def trim_def js_def isWhiteSpace_def)
  moreover have "\<forall>l\<in>set (map (\<lambda>i. replicate (Suc i) 120) [0..<n]). truthyStr (trim l)"
    using trim_row by (auto simp: truthyStr_def simp del: replicate_Suc)
  ultimately show ?thesis
    by (simp add: csvLines_def)
qed

lemma csvLines_scenarioCsv:
  "csvLines scenarioCsv =
     [js ''timestamp,open,high,low,close,volume'', js ''t1,10,12,9,11,100'',
      js ''t2,11,13,10,12,110'', js ''t3,12,14,11,13,120'']"
  by (simp add: csvLines_def scenarioCsv_def js_def newline_def trim_def isWhiteSpace_def
      truthyStr_def)

lemma csvLines_headerOnlyCsv:
  "csvLines headerOnlyCsv = [js ''timestamp,open,high,low,close,volume'']"
  by (simp add: csvLines_def headerOnlyCsv_def js_def newline_def trim_def isWhiteSpace_def
      truthyStr_def)

lemma uploadCSV_selected:
  "csvFile s = Some f \<Longrightarrow>
   uploadCSV clock net s =
     (case uploadCSV_try clock net f (s\<lparr>loading := True\<rparr>) of
        (s1, reqs, thrown) \<Rightarrow>
          ((case thrown of
              None \<Rightarrow> s1
            | Some e \<Rightarrow> appendMessage \<lparr>sender = System, msg_text = Str csvErrorText\<rparr> s1)
           \<lparr>csvFile := None, csvPreview := None, loading := False\<rparr>, reqs))"
  by (simp add: uploadCSV_def Let_def)

lemma csvLines_Nil: "csvLines [] = []"
  by (simp add: csvLines_def truthyStr_def)

lemma summaryText_Nil:
  "summaryText [] =
     [55357, 56522] @ js '' CSV uploaded and analyzed'' @ [newline, newline] @
     [55357, 56520] @ js '' Data Summary:'' @ [newline] @
     js ''- Total lines processed: 0'' @ [newline] @
     js ''- Date range: undefined to undefined'' @ [newline] @
     js ''- Price range: $Infinity - $-Infinity''"
  by (simp add: summaryText_def elemAt_def toStringOpt_def Math_min_def Math_max_def
      numToString_def natToString.simps js_def)

lemma JSON_stringify_Nil: "toUSVString (JSON_stringify []) = js ''[]''"
  by (simp add: JSON_stringify_def js_def isHighSurrogate_def isLowSurrogate_def)

lemma toUSVString_lone_surrogate: "toUSVString (js ''why'' @ [55357]) = js ''why'' @ [65533]"
  by (simp add: js_def isHighSurrogate_def isLowSurrogate_def)

lemma toUSVString_default_phrase:
  "toUSVString (js ''Analyze this CSV data'') = js ''Analyze this CSV data''"
  by (simp add: js_def isHighSurrogate_def isLowSurrogate_def)

section \<open>Facts about numbers\<close>

lemma roundHalfEven_of_int [simp]: "roundHalfEven (of_int z) = z"
  by (simp add: roundHalfEven_def)

lemma ilog2_of_nat: "0 < n \<Longrightarrow> ilog 2 (of_nat n) = int (floorlog 2 n) - 1"
  by (simp add: ilog_def)

lemma toDouble_of_nat:
  assumes "n < 2 ^ 53"
  shows "toDouble (of_nat n) = Fin (of_nat n)"
proof (cases "n = 0")
  case True
  then show ?thesis by (simp add: toDouble_def)
next
  case False
  then have pos: "0 < n" by simp
  have fl: "floorlog 2 n \<le> 53"
    using assms by (simp add: floorlog_le_iff)
  define j where "j = nat (- max (ilog 2 (of_nat n) - 52) (- 1074))"
  have ex: "max (ilog 2 (of_nat n) - 52) (- 1074) = - int j"
    using fl pos by (simp add: j_def ilog2_of_nat)
  have p: "pow2 (- int j) = 1 / 2 ^ j"
    by (simp add: pow2_def)
  have q: "rat_of_nat n / pow2 (- int j) = of_int (int (n * 2 ^ j))"
    by (simp add: p)
  have v: "of_int (roundHalfEven (rat_of_nat n / pow2 (- int j))) * pow2 (- int j) = rat_of_nat n"
    unfolding q roundHalfEven_of_int by (simp add: p)
  have "rat_of_nat n < of_nat (2 ^ 53)"
    using assms by (simp only: of_nat_less_iff)
  also have "\<dots> \<le> 2 ^ 1024"
    by simp
  finally have small: "\<not> 2 ^ 1024 \<le> rat_of_nat n"
    by simp
  have nz: "rat_of_nat n \<noteq> 0" "\<not> rat_of_nat n < 0" "\<bar>rat_of_nat n\<bar> = rat_of_nat n"
    using pos by simp_all
  show ?thesis
    unfolding toDouble_def Let_def nz ex v using nz small by simp
qed

lemma toDouble_numeral:
  "numeral w < (2::nat) ^ 53 \<Longrightarrow> toDouble (numeral w) = Fin (numeral w)"
  using toDouble_of_nat [of "numeral w"] by simp

lemma toDouble_not_NaN [simp]: "toDouble q \<noteq> NaN"
  by (simp add: toDouble_def Let_def)

lemma orZero_not_NaN [simp]: "orZero x \<noteq> NaN"
  by (simp add: orZero_def truthyNum_def)

lemma parseFloat_undefined: "parseFloat (js ''undefined'') = NaN"
  by (simp add: parseFloat_def parseSign_def trimStart_def isWhiteSpace_def js_def isDigit_def)

lemma orZero_parseFloat: "orZero (parseFloat (toStringOpt column)) = spec_number column"
  by (cases column)
    (auto simp: toStringOpt_def spec_number_def parseFloat_undefined orZero_def truthyNum_def)

lemma elemAt_split_0: "elemAt (split sep s) 0 = Some (hd (split sep s))"
  using split_not_Nil [of sep s] by (cases "split sep s") (simp_all add: elemAt_def)

lemma floor_divide_numeral_rat [simp]:
  "\<lfloor>(numeral a :: rat) / numeral b\<rfloor> = numeral a div numeral b"
  using floor_divide_of_int_eq [of "numeral a" "numeral b", where ?'a = rat] by simp

lemma shortest_numeral:
  "shortest (numeral w) q k =
     (case candidates q k of
        [] \<Rightarrow> shortest (pred_numeral w) q (Suc k)
      | c # cs \<Rightarrow> (let b = foldl (closer q k) c cs in (fst b, k, snd b)))"
  by (simp add: numeral_eq_Suc)

lemma ilog10_9: "ilog 10 9 = 0"
  by (simp add: ilog_def compute_floorlog)

lemma ilog10_14: "ilog 10 14 = 1"
  by (simp add: ilog_def compute_floorlog)

lemma candidates_9: "candidates 9 (Suc 0) = [(1, 9)]"
  by (simp add: candidates_def ilog10_9 decimalOf_def pow10_def toDouble_numeral)

lemma candidates_14_1: "candidates 14 (Suc 0) = []"
  by (simp add: candidates_def ilog10_14 decimalOf_def pow10_def toDouble_numeral)

lemma candidates_14_2: "candidates 14 (Suc (Suc 0)) = [(2, 14)]"
  by (simp add: candidates_def ilog10_14 decimalOf_def pow10_def toDouble_numeral)

lemma shortest_9: "shortest 17 9 1 = (1, 1, 9)"
  by (simp add: shortest_numeral candidates_9)

lemma shortest_14: "shortest 17 14 1 = (2, 2, 14)"
  by (simp add: shortest_numeral candidates_14_1 candidates_14_2)

lemma numToString_9: "numToString (Fin 9) = js ''9''"
  using shortest_9
  by (simp add: numToString_def posToString_def formatDigits_def natToString.simps js_def)

lemma numToString_14: "numToString (Fin 14) = js ''14''"
  using shortest_14
  by (simp add: numToString_def posToString_def formatDigits_def natToString.simps js_def)

section \<open>The minimum and the maximum of a scan\<close>

lemma jsle_refl: "x \<noteq> NaN \<Longrightarrow> jsle x x"
  by (cases x) (simp_all add: jsle_def)

lemma jsle_trans: "jsle x y \<Longrightarrow> jsle y z \<Longrightarrow> jsle x z"
  by (cases x; cases y; cases z) (simp_all add: jsle_def)

lemma jslt_jsle: "jslt x y \<Longrightarrow> jsle x y"
  by (cases x; cases y) (simp_all add: jsle_def)

lemma not_jslt_jsle: "x \<noteq> NaN \<Longrightarrow> y \<noteq> NaN \<Longrightarrow> \<not> jslt x y \<Longrightarrow> jsle y x"
  by (simp add: jsle_def)

lemma jsle_PosInf: "x \<noteq> NaN \<Longrightarrow> jsle x PosInf"
  by (cases x) (simp_all add: jsle_def)

lemma jsle_NegInf: "x \<noteq> NaN \<Longrightarrow> jsle NegInf x"
  by (cases x) (simp_all add: jsle_def)

lemma PosInf_least: "jsle PosInf x \<Longrightarrow> x = PosInf"
  by (cases x) (simp_all add: jsle_def)

lemma NegInf_greatest: "jsle x NegInf \<Longrightarrow> x = NegInf"
  by (cases x) (simp_all add: jsle_def)

lemma scan_min:
  assumes "NaN \<notin> set xs"
  shows "(foldl (\<lambda>lowest x. if jslt x lowest then x else lowest) PosInf xs \<in> set xs \<or>
          foldl (\<lambda>lowest x. if jslt x lowest then x else lowest) PosInf xs = PosInf) \<and>
         foldl (\<lambda>lowest x. if jslt x lowest then x else lowest) PosInf xs \<noteq> NaN \<and>
         (\<forall>x\<in>set xs. jsle (foldl (\<lambda>lowest x. if jslt x lowest then x else lowest) PosInf xs) x)"
  using assms
proof (induction xs rule: rev_induct)
  case Nil
  then show ?case by simp
next
  case (snoc x xs)
  let ?m = "foldl (\<lambda>lowest x. if jslt x lowest then x else lowest) PosInf xs"
  from snoc have ih: "?m \<in> set xs \<or> ?m = PosInf" "?m \<noteq> NaN" "\<forall>y\<in>set xs. jsle ?m y"
    and x: "x \<noteq> NaN"
    by auto
  show ?case
  proof (cases "jslt x ?m")
    case True
    then have "jsle x ?m" by (rule jslt_jsle)
    with ih(3) have "\<forall>y\<in>set xs. jsle x y"
      by (blast intro: jsle_trans)
    with True x show ?thesis
      by (simp add: jsle_refl)
  next
    case False
    with x ih(2) have "jsle ?m x" by (simp add: not_jslt_jsle)
    with False ih show ?thesis
      by auto
  qed
qed

lemma scan_max:
  assumes "NaN \<notin> set xs"
  shows "(foldl (\<lambda>highest x. if jslt highest x then x else highest) NegInf xs \<in> set xs \<or>
          foldl (\<lambda>highest x. if jslt highest x then x else highest) NegInf xs = NegInf) \<and>
         foldl (\<lambda>highest x. if jslt highest x then x else highest) NegInf xs \<noteq> NaN \<and>
         (\<forall>x\<in>set xs. jsle x (foldl (\<lambda>highest x. if jslt highest x then x else highest) NegInf xs))"
  using assms
proof (induction xs rule: rev_induct)
  case Nil
  then show ?case by simp
next
  case (snoc x xs)
  let ?m = "foldl (\<lambda>highest x. if jslt highest x then x else highest) NegInf xs"
  from snoc have ih: "?m \<in> set xs \<or> ?m = NegInf" "?m \<noteq> NaN" "\<forall>y\<in>set xs. jsle y ?m"
    and x: "x \<noteq> NaN"
    by auto
  show ?case
  proof (cases "jslt ?m x")
    case True
    then have "jsle ?m x" by (rule jslt_jsle)
    with ih(3) have "\<forall>y\<in>set xs. jsle y x"
      by (blast intro: jsle_trans)
    with True x show ?thesis
      by (simp add: jsle_refl)
  next
    case False
    with x ih(2) have "jsle x ?m" by (simp add: not_jslt_jsle)
    with False ih show ?thesis
      by auto
  qed
qed

lemma Math_min_least:
  assumes "NaN \<notin> set xs" and "xs \<noteq> []"
  shows "Math_min xs \<in> set xs \<and> (\<forall>x\<in>set xs. jsle (Math_min xs) x)"
proof -
  let ?m = "foldl (\<lambda>lowest x. if jslt x lowest then x else lowest) PosInf xs"
  from assms(1) have m: "Math_min xs = ?m"
    by (simp add: Math_min_def)
  from scan_min [OF assms(1)] have s: "?m \<in> set xs \<or> ?m = PosInf" "\<forall>x\<in>set xs. jsle ?m x"
    by auto
  have "?m \<in> set xs"
  proof (cases "?m = PosInf")
    case True
    from assms(2) obtain y where y: "y \<in> set xs"
      by (cases xs) auto
    with s(2) True have "y = PosInf"
      by (auto dest: PosInf_least)
    with y True show ?thesis by simp
  next
    case False
    with s(1) show ?thesis by simp
  qed
  with s(2) m show ?thesis by simp
qed

lemma Math_max_greatest:
  assumes "NaN \<notin> set xs" and "xs \<noteq> []"
  shows "Math_max xs \<in> set xs \<and> (\<forall>x\<in>set xs. jsle x (Math_max xs))"
proof -
  let ?m = "foldl (\<lambda>highest x. if jslt highest x then x else highest) NegInf xs"
  from assms(1) have m: "Math_max xs = ?m"
    by (simp add: Math_max_def)
  from scan_max [OF assms(1)] have s: "?m \<in> set xs \<or> ?m = NegInf" "\<forall>x\<in>set xs. jsle x ?m"
    by auto
  have "?m \<in> set xs"
  proof (cases "?m = NegInf")
    case True
    from assms(2) obtain y where y: "y \<in> set xs"
      by (cases xs) auto
    with s(2) True have "y = NegInf"
      by (auto dest: NegInf_greatest)
    with y True show ?thesis by simp
  next
    case False
    with s(1) show ?thesis by simp
  qed
  with s(2) m show ?thesis by simp
qed

lemma toOhlc_no_NaN [simp]:
  "ohlc_low (toOhlc now line) \<noteq> NaN" "ohlc_high (toOhlc now line) \<noteq> NaN"
  "NaN \<noteq> ohlc_low (toOhlc now line)" "NaN \<noteq> ohlc_high (toOhlc now line)"
  using orZero_not_NaN [symmetric] by (simp_all add: toOhlc_def Let_def)

lemma ohlcData_no_NaN:
  "NaN \<notin> set (map ohlc_low (ohlcData clock ls))" "NaN \<notin> set (map ohlc_high (ohlcData clock ls))"
  by (auto simp: ohlcData_def)

section \<open>The scenario of three rows\<close>

lemmas parseFloat_eval =
  parseFloat_def parseSign_def trimStart_def isWhiteSpace_def isDigit_def digitsVal_def
  parseExponent_def pow10_def toDouble_numeral

lemma toOhlc_eval:
  "toOhlc now line =
     \<lparr> ohlc_t = spec_timestamp now (elemAt (split comma line) 0),
       ohlc_open = spec_number (elemAt (split comma line) 1),
       ohlc_high = spec_number (elemAt (split comma line) 2),
       ohlc_low = spec_number (elemAt (split comma line) 3),
       ohlc_close = spec_number (elemAt (split comma line) 4),
       ohlc_volume = spec_number (elemAt (split comma line) 5) \<rparr>"
  by (simp add: toOhlc_def Let_def orZero_parseFloat spec_timestamp_def truthyStr_def
      split: option.splits)

lemma row1: "toOhlc now (js ''t1,10,12,9,11,100'') =
  \<lparr>ohlc_t = js ''t1'', ohlc_open = Fin 10, ohlc_high = Fin 12, ohlc_low = Fin 9,
   ohlc_close = Fin 11, ohlc_volume = Fin 100\<rparr>"
  by (simp add: toOhlc_eval js_def comma_def elemAt_def spec_timestamp_def spec_number_def
      parseFloat_eval)

lemma row2: "toOhlc now (js ''t2,11,13,10,12,110'') =
  \<lparr>ohlc_t = js ''t2'', ohlc_open = Fin 11, ohlc_high = Fin 13, ohlc_low = Fin 10,
   ohlc_close = Fin 12, ohlc_volume = Fin 110\<rparr>"
  by (simp add: toOhlc_eval js_def comma_def elemAt_def spec_timestamp_def spec_number_def
      parseFloat_eval)

lemma row3: "toOhlc now (js ''t3,12,14,11,13,120'') =
  \<lparr>ohlc_t = js ''t3'', ohlc_open = Fin 12, ohlc_high = Fin 14, ohlc_low = Fin 11,
   ohlc_close = Fin 13, ohlc_volume = Fin 120\<rparr>"
  by (simp add: toOhlc_eval js_def comma_def elemAt_def spec_timestamp_def spec_number_def
      parseFloat_eval)

lemma rowBad: "toOhlc now (js '',abc,,7x'') =
  \<lparr>ohlc_t = now, ohlc_open = Fin 0, ohlc_high = Fin 0, ohlc_low = Fin 7,
   ohlc_close = Fin 0, ohlc_volume = Fin 0\<rparr>"
  by (simp add: toOhlc_eval js_def comma_def elemAt_def spec_timestamp_def spec_number_def
      parseFloat_eval)

lemma scenario_records:
  "ohlcData clock (linesToProcess (csvLines scenarioCsv)) =
     [\<lparr>ohlc_t = js ''t1'', ohlc_open = Fin 10, ohlc_high = Fin 12, ohlc_low = Fin 9,
       ohlc_close = Fin 11, ohlc_volume = Fin 100\<rparr>,
      \<lparr>ohlc_t = js ''t2'', ohlc_open = Fin 11, ohlc_high = Fin 13, ohlc_low = Fin 10,
       ohlc_close = Fin 12, ohlc_volume = Fin 110\<rparr>,
      \<lparr>ohlc_t = js ''t3'', ohlc_open = Fin 12, ohlc_high = Fin 14, ohlc_low = Fin 11,
       ohlc_close = Fin 13, ohlc_volume = Fin 120\<rparr>]"
  by (simp add: csvLines_scenarioCsv linesToProcess_eq ohlcData_def row1 row2 row3)

lemma scenario_summary:
  "summaryText (ohlcData clock (linesToProcess (csvLines scenarioCsv))) =
     [55357, 56522] @ js '' CSV uploaded and analyzed'' @ [newline, newline] @
     [55357, 56520] @ js '' Data Summary:'' @ [newline] @
     js ''- Total lines processed: 3'' @ [newline] @
     js ''- Date range: t1 to t3'' @ [newline] @
     js ''- Price range: $9 - $14''"
proof -
  have lo: "Math_min [Fin 9, Fin 10, Fin 11] = Fin 9"
    by (simp add: Math_min_def)
  have hi: "Math_max [Fin 12, Fin 13, Fin 14] = Fin 14"
    by (simp add: Math_max_def)
  have n: "natToString (Suc (Suc (Suc 0))) = js ''3''"
    by (simp add: natToString.simps js_def)
  have a: "js ''- Total lines processed: 3'' = js ''- Total lines processed: '' @ js ''3''"
    "js ''- Date range: t1 to t3'' = js ''- Date range: '' @ js ''t1'' @ js '' to '' @ js ''t3''"
    "js ''- Price range: $9 - $14'' = js ''- Price range: $'' @ js ''9'' @ js '' - $'' @ js ''14''"
    by (simp_all add: js_def)
  show ?thesis
    unfolding scenario_records a
    by (simp add: summaryText_def elemAt_def toStringOpt_def lo hi n numToString_9 numToString_14)
qed

section \<open>Empty input and no selected file\<close>

text \<open>
  Claim C5. In every state, \<open>sendMessage\<close> with an input that is empty or consists of
  white space only, and \<open>uploadCSV\<close> with no selected file, do nothing: the state is
  returned as it was (its messages and its loading flag included) and no request is
  issued.
\<close>

theorem empty_actions_are_noops:
  "(trim (input s) = [] \<longrightarrow> sendMessage net s = (s, [])) \<and>
   (csvFile s = None \<longrightarrow> uploadCSV clock net s = (s, []))"
  by (simp add: sendMessage_def uploadCSV_def truthyStr_def)

theorem empty_actions_are_noops_witness:
  "trim (input (withInput [32, 32])) = [] \<and>
   csvFile (withInput [32, 32]) = None \<and>
   sendMessage Rejected (withInput [32, 32]) = (withInput [32, 32], []) \<and>
   uploadCSV fixedClock Rejected (withInput [32, 32]) = (withInput [32, 32], [])"
  using empty_actions_are_noops [of "withInput [32, 32]" Rejected fixedClock]
  by (simp add: trim_two_spaces)

section \<open>A chat request that fails\<close>

lemma sendMessage_issues_iff:
  "snd (sendMessage net s) \<noteq> [] \<longleftrightarrow> truthyStr (trim (input s))"
  by (simp add: sendMessage_def Let_def)

text \<open>
  Claim C6. Take an invocation of \<open>sendMessage\<close> with a non-empty input that issues its
  chat request (the input is not white space only, see C5). When the request fails, that
  is when something is thrown in the \<open>try\<close> block (\<open>fetch\<close> rejects, \<open>res.json()\<close>
  rejects, or the body is \<open>null\<close>), the messages afterwards are the old ones, the user
  message, and exactly one more message, from the system with the fixed error text.
  Whether the request fails or not, the input is cleared and the loading flag is false
  afterwards.
\<close>

theorem failing_chat_appends_one_system_message:
  assumes "input s \<noteq> []" and "snd (sendMessage net s) \<noteq> []"
  shows "(chatReply net = Inl e \<longrightarrow>
            messages (fst (sendMessage net s)) =
              messages s @ [\<lparr>sender = User, msg_text = Str (input s)\<rparr>,
                            \<lparr>sender = System, msg_text = Str chatErrorText\<rparr>]) \<and>
         input (fst (sendMessage net s)) = [] \<and>
         loading (fst (sendMessage net s)) = False \<and>
         chatReply Rejected = Inl NetworkError \<and>
         (\<forall>res. body res = None \<longrightarrow> chatReply (Resolved res) = Inl SyntaxError)"
proof -
  from assms(2) have "truthyStr (trim (input s))"
    by (simp add: sendMessage_issues_iff)
  then show ?thesis
    by (simp add: sendMessage_def Let_def chatReply_def split: sum.splits)
qed

theorem failing_chat_witness:
  "input (withInput [104, 105]) \<noteq> [] \<and>
   snd (sendMessage Rejected (withInput [104, 105])) \<noteq> [] \<and>
   chatReply Rejected = Inl NetworkError \<and>
   messages (fst (sendMessage Rejected (withInput [104, 105]))) =
     [\<lparr>sender = User, msg_text = Str [104, 105]\<rparr>,
      \<lparr>sender = System, msg_text = Str chatErrorText\<rparr>] \<and>
   input (fst (sendMessage Rejected (withInput [104, 105]))) = [] \<and>
   loading (fst (sendMessage Rejected (withInput [104, 105]))) = False"
proof -
  let ?s = "withInput [104, 105]"
  have i: "input ?s \<noteq> []"
    by simp
  have r: "snd (sendMessage Rejected ?s) \<noteq> []"
    by (simp add: sendMessage_issues_iff trim_hi truthyStr_def)
  from failing_chat_appends_one_system_message [OF i r, of NetworkError] i r
  show ?thesis
    by simp
qed

section \<open>The health check\<close>

text \<open>
  Claim C3, as stated, fails: \<open>checkBackendHealth\<close> awaits \<open>res.json()\<close> before it sets
  the status, so a 2xx response whose body cannot be read as JSON ends in the
  \<open>catch\<close> block, with status \<open>disconnected\<close>.
\<close>

theorem health_check_unreadable_body:
  "ok \<lparr>status = 200, body = None\<rparr> \<and>
   backendStatus (fst (checkBackendHealth (unreadable 200) initialState)) = Disconnected"
  by (simp add: checkBackendHealth_def ok_def unreadable_def)

text \<open>
  Claim C3, amended. A request that throws sets the status to \<open>disconnected\<close>; a
  response that is not 2xx sets it to \<open>error\<close>, whatever its body; a 2xx response whose
  body is read as JSON sets it to \<open>connected\<close>, whatever value was read.
\<close>

theorem health_check_status:
  "(net = Rejected \<longrightarrow> backendStatus (fst (checkBackendHealth net s)) = Disconnected) \<and>
   (\<forall>res. net = Resolved res \<and> \<not> ok res \<longrightarrow>
      backendStatus (fst (checkBackendHealth net s)) = BackendError) \<and>
   (\<forall>res data. net = Resolved res \<and> ok res \<and> body res = Some data \<longrightarrow>
      backendStatus (fst (checkBackendHealth net s)) = Connected)"
  by (auto simp: checkBackendHealth_def)

theorem health_check_status_witness:
  "backendStatus (fst (checkBackendHealth Rejected initialState)) = Disconnected \<and>
   \<not> ok \<lparr>status = 500, body = Some Null\<rparr> \<and>
   backendStatus (fst (checkBackendHealth (replied 500 Null) initialState)) = BackendError \<and>
   ok \<lparr>status = 204, body = Some (Str [])\<rparr> \<and>
   backendStatus (fst (checkBackendHealth (replied 204 (Str [])) initialState)) = Connected"
  using health_check_status [of Rejected initialState]
    health_check_status [of "replied 500 Null" initialState]
    health_check_status [of "replied 204 (Str [])" initialState]
  by (simp add: ok_def replied_def)

section \<open>The input text is left alone\<close>

lemma uploadCSV_try_input:
  "uploadCSV_try clock net f s = (s', reqs, thrown) \<Longrightarrow> input s' = input s"
  by (auto simp: uploadCSV_try_def Let_def
      split: option.splits fetch_result.splits sum.splits if_splits)

lemma uploadCSV_try_requests:
  "uploadCSV_try clock net f s = (s', reqs, thrown) \<Longrightarrow>
     reqs = [] \<or>
     (\<exists>j. reqs = [PostForm (js ''http://localhost:8000/analyze'')
                    [(js ''question'', toUSVString (question (input s))),
                     (js ''ohlc_json'', j)]])"
  by (auto simp: uploadCSV_try_def Let_def
      split: option.splits fetch_result.splits sum.splits if_splits)

text \<open>
  Claim C9. \<open>uploadCSV\<close> never changes the input text, whatever the file and the outcome
  of the request. It only reads it: a request it issues carries the input, or the fixed
  phrase when the input is empty, as its \<open>question\<close> field, in the form in which
  \<open>FormData.append\<close> stores a string (a lone surrogate replaced by U+FFFD): for the
  input \<open>why\<close> followed by a lone U+D83D the field ends in U+FFFD, and the input
  keeps its surrogate. Neither do
  \<open>checkBackendHealth\<close> and \<open>handleCsvFileChange\<close> change the input; of the actions only
  \<open>sendMessage\<close> clears it, whenever it issues its request.
\<close>

theorem uploadCSV_keeps_input:
  "input (fst (uploadCSV clock net s)) = input s \<and>
   (snd (uploadCSV clock net s) = [] \<or>
    (\<exists>j. snd (uploadCSV clock net s) =
           [PostForm (js ''http://localhost:8000/analyze'')
              [(js ''question'',
                toUSVString (if input s = [] then js ''Analyze this CSV data'' else input s)),
               (js ''ohlc_json'', j)]])) \<and>
   input (fst (checkBackendHealth net s)) = input s \<and>
   input (handleCsvFileChange file s) = input s \<and>
   (snd (sendMessage net s) = [] \<or> input (fst (sendMessage net s)) = []) \<and>
   snd (uploadCSV fixedClock Rejected ((withFile headerOnlyCsv)\<lparr>input := js ''why'' @ [55357]\<rparr>)) =
     [PostForm (js ''http://localhost:8000/analyze'')
        [(js ''question'', js ''why'' @ [65533]), (js ''ohlc_json'', js ''[]'')]] \<and>
   input (fst (uploadCSV fixedClock Rejected
                 ((withFile headerOnlyCsv)\<lparr>input := js ''why'' @ [55357]\<rparr>))) =
     js ''why'' @ [55357]"
proof -
  let ?w = "(withFile headerOnlyCsv)\<lparr>input := js ''why'' @ [55357]\<rparr>"
  have sel: "ohlcData fixedClock (linesToProcess [js ''timestamp,open,high,low,close,volume'']) = []"
    by (simp add: linesToProcess_eq ohlcData_def)
  have f: "csvFile ?w = Some (csvNamed headerOnlyCsv)"
    by simp
  have g: "snd (uploadCSV fixedClock Rejected ?w) =
     [PostForm (js ''http://localhost:8000/analyze'')
        [(js ''question'', js ''why'' @ [65533]), (js ''ohlc_json'', js ''[]'')]]"
    "input (fst (uploadCSV fixedClock Rejected ?w)) = js ''why'' @ [55357]"
    by (simp_all add: uploadCSV_selected [OF f] uploadCSV_try_def csvLines_headerOnlyCsv elemAt_0
        sel Let_def JSON_stringify_Nil question_def truthyStr_def toUSVString_lone_surrogate)
  have a: "input (fst (uploadCSV clock net s)) = input s"
  proof (cases "csvFile s")
    case None
    then show ?thesis by (simp add: uploadCSV_def)
  next
    case (Some f)
    obtain s' reqs thrown
      where t: "uploadCSV_try clock net f (s\<lparr>loading := True\<rparr>) = (s', reqs, thrown)"
      by (cases "uploadCSV_try clock net f (s\<lparr>loading := True\<rparr>)") auto
    from uploadCSV_try_input [OF t] Some t show ?thesis
      by (simp add: uploadCSV_def Let_def split: option.splits)
  qed
  have b: "snd (uploadCSV clock net s) = [] \<or>
    (\<exists>j. snd (uploadCSV clock net s) =
           [PostForm (js ''http://localhost:8000/analyze'')
              [(js ''question'',
                toUSVString (if input s = [] then js ''Analyze this CSV data'' else input s)),
               (js ''ohlc_json'', j)]])"
  proof (cases "csvFile s")
    case None
    then show ?thesis by (simp add: uploadCSV_def)
  next
    case (Some f)
    obtain s' reqs thrown
      where t: "uploadCSV_try clock net f (s\<lparr>loading := True\<rparr>) = (s', reqs, thrown)"
      by (cases "uploadCSV_try clock net f (s\<lparr>loading := True\<rparr>)") auto
    from uploadCSV_try_requests [OF t] Some t show ?thesis
      by (auto simp: uploadCSV_def Let_def question_def truthyStr_def)
  qed
  have c: "input (fst (checkBackendHealth net s)) = input s"
    by (simp add: checkBackendHealth_def split: fetch_result.splits option.splits)
  have d: "input (handleCsvFileChange file s) = input s"
    by (simp add: handleCsvFileChange_def Let_def split: option.splits sum.splits)
  have e: "snd (sendMessage net s) = [] \<or> input (fst (sendMessage net s)) = []"
    by (simp add: sendMessage_def Let_def)
  from a b c d e g show ?thesis
    by blast
qed

section \<open>The selected lines\<close>

text \<open>
  Claim C2. Let the CSV text have a header and \<open>N \<ge> 1\<close> data lines after it (the lines
  that \<open>filter(line => line.trim())\<close> keeps, that is those not blank). The converter
  selects \<open>min N 50\<close> of them: all of them when \<open>N \<le> 50\<close>, and exactly the last 50 in
  their original order, with nothing re-sorted, when \<open>N > 50\<close>. It builds one record
  for each selected line.
\<close>

theorem selects_last_50:
  assumes "csvLines txt = header # rows" and "1 \<le> length rows"
  shows "length (linesToProcess (csvLines txt)) = min (length rows) 50 \<and>
         (\<exists>skipped. rows = skipped @ linesToProcess (csvLines txt)) \<and>
         (length rows \<le> 50 \<longrightarrow> linesToProcess (csvLines txt) = rows) \<and>
         (50 < length rows \<longrightarrow>
            linesToProcess (csvLines txt) = drop (length rows - 50) rows) \<and>
         length (ohlcData clock (linesToProcess (csvLines txt))) = min (length rows) 50"
proof -
  have sel: "linesToProcess (csvLines txt) = drop (length rows - 50) rows"
    using assms(1) by (simp add: linesToProcess_eq)
  have "rows = take (length rows - 50) rows @ drop (length rows - 50) rows"
    by simp
  then have "\<exists>skipped. rows = skipped @ drop (length rows - 50) rows"
    by blast
  with sel show ?thesis
    by (simp add: ohlcData_def)
qed

theorem selects_last_50_witness:
  "csvLines (rowsCsv 51) = js ''h'' # map (\<lambda>i. replicate (Suc i) 120) [0..<51] \<and>
   length (linesToProcess (csvLines (rowsCsv 51))) = 50 \<and>
   linesToProcess (csvLines (rowsCsv 51)) = map (\<lambda>i. replicate (Suc i) 120) [1..<51] \<and>
   length (linesToProcess (csvLines (rowsCsv 3))) = 3 \<and>
   linesToProcess (csvLines (rowsCsv 3)) = [[120], [120, 120], [120, 120, 120]]"
proof -
  have a: "1 \<le> length (map (\<lambda>i. replicate (Suc i) 120 :: jsstring) [0..<51])"
    by simp
  have b: "1 \<le> length (map (\<lambda>i. replicate (Suc i) 120 :: jsstring) [0..<3])"
    by simp
  have d: "drop (Suc 0) (map (\<lambda>i. replicate (Suc i) 120 :: jsstring) [0..<51]) =
      map (\<lambda>i. replicate (Suc i) 120) [1..<51]"
    by (simp add: drop_map)
  have e: "map (\<lambda>i. replicate (Suc i) 120 :: jsstring) [0..<3] = [[120], [120, 120], [120, 120, 120]]"
    by (simp add: upt_rec numeral_eq_Suc)
  from selects_last_50 [OF csvLines_rowsCsv [of 51] a, of fixedClock]
    selects_last_50 [OF csvLines_rowsCsv [of 3] b, of fixedClock] d e
  show ?thesis
    by (simp add: csvLines_rowsCsv)
qed

section \<open>The messages of an analysis\<close>

text \<open>
  Claim C1, as stated, fails: the summary is built and appended after \<open>fetch\<close> and
  \<open>res.json()\<close> have resolved, inside the \<open>try\<close> block. When the request fails, the
  \<open>catch\<close> block appends the error message alone: one message, not two.
\<close>

theorem failing_analyze_appends_error_only:
  "csvFile (withFile scenarioCsv) = Some (csvNamed scenarioCsv) \<and>
   snd (uploadCSV fixedClock Rejected (withFile scenarioCsv)) \<noteq> [] \<and>
   messages (fst (uploadCSV fixedClock Rejected (withFile scenarioCsv))) =
     [\<lparr>sender = System, msg_text = Str csvErrorText\<rparr>]"
  by (simp add: uploadCSV_selected uploadCSV_try_def csvLines_scenarioCsv elemAt_0 Let_def)

text \<open>
  Claim C1, amended. Take an invocation of \<open>uploadCSV\<close> with a selected file. When the
  request fails (\<open>fetch\<close> or \<open>res.json()\<close> rejects), exactly one message is appended,
  the system error message, and no summary. When the request succeeds, the file having
  been read and having a header line, the system summary is appended first; it is
  followed by one assistant message when the body has a truthy \<open>analysis\<close> field, by
  nothing when it has none, and by the system error message when reading the field
  throws.
\<close>

theorem analyze_messages:
  assumes "csvFile s = Some f"
  shows
    "((net = Rejected \<or> (\<exists>res. net = Resolved res \<and> body res = None)) \<longrightarrow>
        messages (fst (uploadCSV clock net s)) =
          messages s @ [\<lparr>sender = System, msg_text = Str csvErrorText\<rparr>]) \<and>
     (\<forall>txt res data.
        fileText f = Some txt \<and> csvLines txt \<noteq> [] \<and>
        net = Resolved res \<and> body res = Some data \<longrightarrow>
        messages (fst (uploadCSV clock net s)) =
          messages s @
          \<lparr>sender = System,
            msg_text = Str (summaryText (ohlcData clock (linesToProcess (csvLines txt))))\<rparr> #
          (case getProp data (js ''analysis'') of
             Inl e \<Rightarrow> [\<lparr>sender = System, msg_text = Str csvErrorText\<rparr>]
           | Inr a \<Rightarrow> if truthy a then [\<lparr>sender = Assistant, msg_text = a\<rparr>] else []))"
  using assms
  by (auto simp: uploadCSV_selected uploadCSV_try_def elemAt_0 Let_def
      split: option.splits list.splits sum.splits)

theorem analyze_messages_witness:
  "csvFile (withFile scenarioCsv) = Some (csvNamed scenarioCsv) \<and>
   messages (fst (uploadCSV fixedClock (unreadable 502) (withFile scenarioCsv))) =
     [\<lparr>sender = System, msg_text = Str csvErrorText\<rparr>] \<and>
   fileText (csvNamed scenarioCsv) = Some scenarioCsv \<and> csvLines scenarioCsv \<noteq> [] \<and>
   messages (fst (uploadCSV fixedClock (replied 200 (Obj [(js ''analysis'', Str (js ''ok''))]))
                    (withFile scenarioCsv))) =
     [\<lparr>sender = System,
       msg_text = Str (summaryText (ohlcData fixedClock (linesToProcess (csvLines scenarioCsv))))\<rparr>,
      \<lparr>sender = Assistant, msg_text = Str (js ''ok'')\<rparr>] \<and>
   messages (fst (uploadCSV fixedClock (replied 200 (Obj [])) (withFile scenarioCsv))) =
     [\<lparr>sender = System,
       msg_text = Str (summaryText (ohlcData fixedClock (linesToProcess (csvLines scenarioCsv))))\<rparr>]"
proof -
  have f: "csvFile (withFile scenarioCsv) = Some (csvNamed scenarioCsv)"
    by simp
  have l: "csvLines scenarioCsv \<noteq> []"
    by (simp add: csvLines_scenarioCsv)
  have ok: "truthy (Str (js ''ok''))"
    by (simp add: truthy_def truthyStr_def js_def)
  from analyze_messages [OF f, of "unreadable 502" fixedClock]
    analyze_messages [OF f, of "replied 200 (Obj [(js ''analysis'', Str (js ''ok''))])" fixedClock]
    analyze_messages [OF f, of "replied 200 (Obj [])" fixedClock]
    l ok
  show ?thesis
    by (simp add: unreadable_def replied_def getProp_def truthy_def)
qed

section \<open>The preview\<close>

text \<open>
  Claim C8, as stated, fails for a selected file without any non-blank line: its text is
  read, but \<open>lines[0]\<close> is \<open>undefined\<close>, \<open>split\<close> throws, and the preview is cleared
  rather than built with \<open>totalLines = -1\<close>.
\<close>

theorem preview_of_empty_file:
  "fileText (csvNamed []) = Some [] \<and>
   csvPreview (handleCsvFileChange (Some (csvNamed [])) initialState) = None"
  by (simp add: handleCsvFileChange_def buildPreview_def csvLines_Nil elemAt_0 Let_def)

text \<open>
  Claim C8, amended. For every selected file whose text has at least one non-blank line,
  the preview has the first such line split on commas as its headers, the lines 1 to 5
  (fewer when there are fewer) as its rows, and the number of non-blank lines minus one
  as \<open>totalLines\<close>. Passing \<open>null\<close>, a file whose text extraction throws, or a file
  without a non-blank line clears the preview. The file itself is stored in each case.
\<close>

theorem preview_builder:
  "handleCsvFileChange None s = s\<lparr>csvFile := None, csvPreview := None\<rparr> \<and>
   (fileText f = None \<longrightarrow>
      handleCsvFileChange (Some f) s = s\<lparr>csvFile := Some f, csvPreview := None\<rparr>) \<and>
   (\<forall>txt. fileText f = Some txt \<and> csvLines txt = [] \<longrightarrow>
      handleCsvFileChange (Some f) s = s\<lparr>csvFile := Some f, csvPreview := None\<rparr>) \<and>
   (\<forall>txt. fileText f = Some txt \<and> csvLines txt \<noteq> [] \<longrightarrow>
      handleCsvFileChange (Some f) s =
        s\<lparr>csvFile := Some f,
          csvPreview := Some \<lparr>headers = split comma (hd (csvLines txt)),
                              preview = take 5 (drop 1 (csvLines txt)),
                              totalLines = int (length (csvLines txt)) - 1\<rparr>\<rparr>)"
  by (auto simp: handleCsvFileChange_def buildPreview_def elemAt_0 slice_1_6 Let_def
      split: list.splits)

theorem preview_builder_witness:
  "handleCsvFileChange None (withFile scenarioCsv) = initialState \<and>
   csvPreview (handleCsvFileChange (Some \<lparr>fileName = js ''gone.csv'', fileText = None\<rparr>)
     initialState) = None \<and>
   csvPreview (handleCsvFileChange (Some (csvNamed [])) initialState) = None \<and>
   csvPreview (handleCsvFileChange (Some (csvNamed (rowsCsv 7))) initialState) =
     Some \<lparr>headers = [[104]],
            preview = [[120], [120, 120], [120, 120, 120], [120, 120, 120, 120],
                       [120, 120, 120, 120, 120]],
            totalLines = 7\<rparr> \<and>
   csvPreview (handleCsvFileChange (Some (csvNamed scenarioCsv)) initialState) =
     Some \<lparr>headers = [js ''timestamp'', js ''open'', js ''high'', js ''low'', js ''close'',
                       js ''volume''],
            preview = [js ''t1,10,12,9,11,100'', js ''t2,11,13,10,12,110'',
                       js ''t3,12,14,11,13,120''],
            totalLines = 3\<rparr>"
proof -
  have e: "csvLines (rowsCsv 7) =
      [js ''h'', [120], [120, 120], [120, 120, 120], [120, 120, 120, 120],
       [120, 120, 120, 120, 120], [120, 120, 120, 120, 120, 120],
       [120, 120, 120, 120, 120, 120, 120]]"
    by (simp add: csvLines_rowsCsv upt_rec numeral_eq_Suc)
  have h: "split comma (js ''timestamp,open,high,low,close,volume'') =
      [js ''timestamp'', js ''open'', js ''high'', js ''low'', js ''close'', js ''volume'']"
    by (simp add: js_def comma_def)
  have h1: "split comma (js ''h'') = [[104]]"
    by (simp add: js_def comma_def)
  from preview_builder [of "withFile scenarioCsv"]
    preview_builder [of initialState "\<lparr>fileName = js ''gone.csv'', fileText = None\<rparr>"]
    preview_builder [of initialState "csvNamed []"]
    preview_builder [of initialState "csvNamed (rowsCsv 7)"]
    preview_builder [of initialState "csvNamed scenarioCsv"]
  show ?thesis
    by (simp add: csvLines_Nil csvLines_scenarioCsv e h h1 withFile_def initialState_def)
qed

section \<open>A file with a header only\<close>

text \<open>
  Claim C10. For a selected file whose text has exactly one non-blank line, \<open>uploadCSV\<close>
  is not a no-op: it issues the analyze request, whose \<open>ohlc_json\<close> field is the empty
  array. When the request succeeds, the first message appended is the summary of the
  empty record list: 0 lines processed, \<open>undefined\<close> for both ends of the date range,
  and the price range \<open>Infinity\<close> to \<open>-Infinity\<close>, the minimum and the maximum of no
  numbers.
\<close>

theorem header_only_is_analyzed:
  assumes "csvFile s = Some f" and "fileText f = Some txt" and "csvLines txt = [header]"
  shows "uploadCSV clock net s \<noteq> (s, []) \<and>
         snd (uploadCSV clock net s) =
           [PostForm (js ''http://localhost:8000/analyze'')
              [(js ''question'', toUSVString (question (input s))),
               (js ''ohlc_json'', js ''[]'')]] \<and>
         (\<forall>res data. net = Resolved res \<and> body res = Some data \<longrightarrow>
            (\<exists>rest. messages (fst (uploadCSV clock net s)) =
               messages s @
               \<lparr>sender = System,
                 msg_text = Str
                   ([55357, 56522] @ js '' CSV uploaded and analyzed'' @ [newline, newline] @
                    [55357, 56520] @ js '' Data Summary:'' @ [newline] @
                    js ''- Total lines processed: 0'' @ [newline] @
                    js ''- Date range: undefined to undefined'' @ [newline] @
                    js ''- Price range: $Infinity - $-Infinity'')\<rparr> # rest))"
proof -
  have sel: "ohlcData clock (linesToProcess (csvLines txt)) = []"
    using assms(3) by (simp add: linesToProcess_eq ohlcData_def)
  have req: "snd (uploadCSV clock net s) =
           [PostForm (js ''http://localhost:8000/analyze'')
              [(js ''question'', toUSVString (question (input s))),
               (js ''ohlc_json'', js ''[]'')]]"
    using assms sel
    by (simp add: uploadCSV_selected uploadCSV_try_def elemAt_0 Let_def JSON_stringify_Nil
        split: fetch_result.splits option.splits sum.splits prod.splits)
  then have "snd (uploadCSV clock net s) \<noteq> []"
    by simp
  then have neq: "uploadCSV clock net s \<noteq> (s, [])"
    by auto
  have msg: "\<forall>res data. net = Resolved res \<and> body res = Some data \<longrightarrow>
            (\<exists>rest. messages (fst (uploadCSV clock net s)) =
               messages s @ \<lparr>sender = System, msg_text = Str (summaryText [])\<rparr> # rest)"
    using assms sel
    by (auto simp: uploadCSV_selected uploadCSV_try_def elemAt_0 Let_def
        split: sum.splits)
  from req neq msg show ?thesis
    unfolding summaryText_Nil by blast
qed

theorem header_only_is_analyzed_witness:
  "csvFile (withFile headerOnlyCsv) = Some (csvNamed headerOnlyCsv) \<and>
   fileText (csvNamed headerOnlyCsv) = Some headerOnlyCsv \<and>
   csvLines headerOnlyCsv = [js ''timestamp,open,high,low,close,volume''] \<and>
   snd (uploadCSV fixedClock (replied 200 (Obj [])) (withFile headerOnlyCsv)) =
     [PostForm (js ''http://localhost:8000/analyze'')
        [(js ''question'', js ''Analyze this CSV data''), (js ''ohlc_json'', js ''[]'')]] \<and>
   messages (fst (uploadCSV fixedClock (replied 200 (Obj [])) (withFile headerOnlyCsv))) =
     [\<lparr>sender = System,
       msg_text = Str
         ([55357, 56522] @ js '' CSV uploaded and analyzed'' @ [newline, newline] @
          [55357, 56520] @ js '' Data Summary:'' @ [newline] @
          js ''- Total lines processed: 0'' @ [newline] @
          js ''- Date range: undefined to undefined'' @ [newline] @
          js ''- Price range: $Infinity - $-Infinity'')\<rparr>]"
proof -
  have f: "csvFile (withFile headerOnlyCsv) = Some (csvNamed headerOnlyCsv)"
    by simp
  have t: "fileText (csvNamed headerOnlyCsv) = Some headerOnlyCsv"
    by simp
  have q: "toUSVString (question []) = js ''Analyze this CSV data''"
    by (simp add: question_def truthyStr_def toUSVString_default_phrase)
  have one: "length (messages (fst (uploadCSV fixedClock (replied 200 (Obj [])) (withFile headerOnlyCsv)))) = 1"
    by (simp add: uploadCSV_selected uploadCSV_try_def csvLines_headerOnlyCsv elemAt_0 Let_def
        replied_def getProp_def truthy_def)
  from header_only_is_analyzed [OF f t csvLines_headerOnlyCsv, of fixedClock "replied 200 (Obj [])"]
    one q
  show ?thesis
    by (auto simp: csvLines_headerOnlyCsv replied_def)
qed

section \<open>The record of one line\<close>

text \<open>
  Claim C7. Every selected line is split on commas and read by position: column 0 is the
  timestamp, replaced by the current wall-clock time when it is empty (or absent);
  columns 1 to 4 are open, high, low and close, and column 5 is the volume, each the
  number \<open>parseFloat\<close> reads, or 0 when it reads none (NaN) or the column is absent. No
  numeric field is ever NaN, and the records are those of the lines, in their order.
\<close>

theorem toOhlc_columns:
  "toOhlc now line =
     \<lparr> ohlc_t = spec_timestamp now (elemAt (split comma line) 0),
       ohlc_open = spec_number (elemAt (split comma line) 1),
       ohlc_high = spec_number (elemAt (split comma line) 2),
       ohlc_low = spec_number (elemAt (split comma line) 3),
       ohlc_close = spec_number (elemAt (split comma line) 4),
       ohlc_volume = spec_number (elemAt (split comma line) 5) \<rparr> \<and>
   spec_number column \<noteq> NaN \<and>
   length (ohlcData clock ls) = length ls \<and>
   (\<forall>i. i < length ls \<longrightarrow> ohlcData clock ls ! i = toOhlc (clock i) (ls ! i))"
proof -
  have t: "(case elemAt (split comma line) 0 of
              Some v \<Rightarrow> if truthyStr v then v else now
            | None \<Rightarrow> now) = spec_timestamp now (elemAt (split comma line) 0)"
    by (simp add: spec_timestamp_def truthyStr_def split: option.splits)
  have n: "spec_number column \<noteq> NaN"
    by (metis orZero_not_NaN orZero_parseFloat)
  have i: "\<forall>i. i < length ls \<longrightarrow> ohlcData clock ls ! i = toOhlc (clock i) (ls ! i)"
    by (simp add: ohlcData_def nth_enumerate_eq)
  from t n i show ?thesis
    by (simp add: toOhlc_def Let_def orZero_parseFloat ohlcData_def)
qed

theorem toOhlc_columns_witness:
  "toOhlc (js ''NOW'') (js ''t1,10,12,9,11,100'') =
     \<lparr>ohlc_t = js ''t1'', ohlc_open = Fin 10, ohlc_high = Fin 12, ohlc_low = Fin 9,
      ohlc_close = Fin 11, ohlc_volume = Fin 100\<rparr> \<and>
   toOhlc (js ''NOW'') (js '',abc,,7x'') =
     \<lparr>ohlc_t = js ''NOW'', ohlc_open = Fin 0, ohlc_high = Fin 0, ohlc_low = Fin 7,
      ohlc_close = Fin 0, ohlc_volume = Fin 0\<rparr> \<and>
   (1::nat) < length [js ''t1,10,12,9,11,100'', js '',abc,,7x''] \<and>
   ohlcData fixedClock [js ''t1,10,12,9,11,100'', js '',abc,,7x''] ! 1 =
     toOhlc (fixedClock 1) (js '',abc,,7x'')"
proof -
  have c1: "split comma (js ''t1,10,12,9,11,100'') =
      [js ''t1'', js ''10'', js ''12'', js ''9'', js ''11'', js ''100'']"
    by (simp add: js_def comma_def)
  have c2: "split comma (js '',abc,,7x'') = [[], js ''abc'', [], js ''7x'']"
    by (simp add: js_def comma_def)
  have n: "spec_number (Some (js ''10'')) = Fin 10" "spec_number (Some (js ''12'')) = Fin 12"
    "spec_number (Some (js ''9'')) = Fin 9" "spec_number (Some (js ''11'')) = Fin 11"
    "spec_number (Some (js ''100'')) = Fin 100" "spec_number (Some (js ''abc'')) = Fin 0"
    "spec_number (Some []) = Fin 0" "spec_number (Some (js ''7x'')) = Fin 7"
    "spec_number None = Fin 0"
    by (simp_all add: spec_number_def js_def parseFloat_eval)
  have t: "js ''t1'' \<noteq> []"
    by (simp add: js_def)
  from toOhlc_columns [of "js ''NOW''" "js ''t1,10,12,9,11,100''" None fixedClock
      "[js ''t1,10,12,9,11,100'', js '',abc,,7x'']"]
    toOhlc_columns [of "js ''NOW''" "js '',abc,,7x''" None fixedClock "[]"]
  show ?thesis
    by (simp add: c1 c2 n t elemAt_def spec_timestamp_def)
qed

section \<open>The price range of the summary\<close>

text \<open>
  Claim C4. For every non-empty list of converted records, the summary text ends with
  the price range \<open>$lo - $hi\<close>, where \<open>lo\<close> is the least \<open>low\<close> field and \<open>hi\<close> the
  greatest \<open>high\<close> field of all the records. For the CSV of the scenario the converter
  yields the three records of its rows, in their order, and the summary reports the range
  \<open>$9 - $14\<close>, which a successful analysis appends as a system message.
\<close>

theorem summary_price_range:
  "(ohlcData clock ls \<noteq> [] \<longrightarrow>
      (\<exists>pre lo hi.
         summaryText (ohlcData clock ls) =
           pre @ js ''- Price range: $'' @ numToString lo @ js '' - $'' @ numToString hi \<and>
         lo \<in> set (map ohlc_low (ohlcData clock ls)) \<and>
         (\<forall>d\<in>set (ohlcData clock ls). jsle lo (ohlc_low d)) \<and>
         hi \<in> set (map ohlc_high (ohlcData clock ls)) \<and>
         (\<forall>d\<in>set (ohlcData clock ls). jsle (ohlc_high d) hi))) \<and>
   ohlcData clock (linesToProcess (csvLines scenarioCsv)) =
     [\<lparr>ohlc_t = js ''t1'', ohlc_open = Fin 10, ohlc_high = Fin 12, ohlc_low = Fin 9,
       ohlc_close = Fin 11, ohlc_volume = Fin 100\<rparr>,
      \<lparr>ohlc_t = js ''t2'', ohlc_open = Fin 11, ohlc_high = Fin 13, ohlc_low = Fin 10,
       ohlc_close = Fin 12, ohlc_volume = Fin 110\<rparr>,
      \<lparr>ohlc_t = js ''t3'', ohlc_open = Fin 12, ohlc_high = Fin 14, ohlc_low = Fin 11,
       ohlc_close = Fin 13, ohlc_volume = Fin 120\<rparr>] \<and>
   summaryText (ohlcData clock (linesToProcess (csvLines scenarioCsv))) =
     [55357, 56522] @ js '' CSV uploaded and analyzed'' @ [newline, newline] @
     [55357, 56520] @ js '' Data Summary:'' @ [newline] @
     js ''- Total lines processed: 3'' @ [newline] @
     js ''- Date range: t1 to t3'' @ [newline] @
     js ''- Price range: $9 - $14'' \<and>
   messages (fst (uploadCSV clock (replied 200 (Obj [])) (withFile scenarioCsv))) =
     [\<lparr>sender = System,
       msg_text = Str
         ([55357, 56522] @ js '' CSV uploaded and analyzed'' @ [newline, newline] @
          [55357, 56520] @ js '' Data Summary:'' @ [newline] @
          js ''- Total lines processed: 3'' @ [newline] @
          js ''- Date range: t1 to t3'' @ [newline] @
          js ''- Price range: $9 - $14'')\<rparr>]"
proof -
  let ?ds = "ohlcData clock ls"
  have msg: "messages (fst (uploadCSV clock (replied 200 (Obj [])) (withFile scenarioCsv))) =
     [\<lparr>sender = System,
       msg_text = Str (summaryText (ohlcData clock (linesToProcess (csvLines scenarioCsv))))\<rparr>]"
    by (simp add: uploadCSV_selected uploadCSV_try_def csvLines_scenarioCsv elemAt_0 Let_def
        replied_def getProp_def truthy_def)
  have general: "\<exists>pre lo hi.
         summaryText ?ds =
           pre @ js ''- Price range: $'' @ numToString lo @ js '' - $'' @ numToString hi \<and>
         lo \<in> set (map ohlc_low ?ds) \<and> (\<forall>d\<in>set ?ds. jsle lo (ohlc_low d)) \<and>
         hi \<in> set (map ohlc_high ?ds) \<and> (\<forall>d\<in>set ?ds. jsle (ohlc_high d) hi)"
    if ne: "?ds \<noteq> []"
  proof -
    from ne have ne': "map ohlc_low ?ds \<noteq> []" "map ohlc_high ?ds \<noteq> []"
      by simp_all
    from Math_min_least [OF ohlcData_no_NaN(1) ne'(1)]
    have lo: "Math_min (map ohlc_low ?ds) \<in> set (map ohlc_low ?ds)"
      "\<forall>d\<in>set ?ds. jsle (Math_min (map ohlc_low ?ds)) (ohlc_low d)"
      by simp_all
    from Math_max_greatest [OF ohlcData_no_NaN(2) ne'(2)]
    have hi: "Math_max (map ohlc_high ?ds) \<in> set (map ohlc_high ?ds)"
      "\<forall>d\<in>set ?ds. jsle (ohlc_high d) (Math_max (map ohlc_high ?ds))"
      by simp_all
    have "summaryText ?ds =
        ([55357, 56522] @ js '' CSV uploaded and analyzed'' @ [newline, newline] @
         [55357, 56520] @ js '' Data Summary:'' @ [newline] @
         js ''- Total lines processed: '' @ natToString (length ?ds) @ [newline] @
         js ''- Date range: '' @ toStringOpt (map_option ohlc_t (elemAt ?ds 0)) @
         js '' to '' @ toStringOpt (map_option ohlc_t (elemAt ?ds (int (length ?ds) - 1))) @
         [newline]) @
        js ''- Price range: $'' @ numToString (Math_min (map ohlc_low ?ds)) @
        js '' - $'' @ numToString (Math_max (map ohlc_high ?ds))"
      by (simp add: summaryText_def)
    with lo hi show ?thesis
      by blast
  qed
  from general scenario_records [of clock] msg show ?thesis
    unfolding scenario_summary by blast
qed

theorem summary_price_range_witness:
  "ohlcData fixedClock (linesToProcess (csvLines scenarioCsv)) \<noteq> [] \<and>
   (\<exists>pre lo hi.
      summaryText (ohlcData fixedClock (linesToProcess (csvLines scenarioCsv))) =
        pre @ js ''- Price range: $'' @ numToString lo @ js '' - $'' @ numToString hi \<and>
      lo \<in> set [Fin 9, Fin 10, Fin 11] \<and> jsle lo (Fin 9) \<and> jsle lo (Fin 10) \<and>
      jsle lo (Fin 11) \<and>
      hi \<in> set [Fin 12, Fin 13, Fin 14] \<and> jsle (Fin 12) hi \<and> jsle (Fin 13) hi \<and>
      jsle (Fin 14) hi)"
proof -
  have ne: "ohlcData fixedClock (linesToProcess (csvLines scenarioCsv)) \<noteq> []"
    by (simp add: scenario_records)
  from summary_price_range [of fixedClock "linesToProcess (csvLines scenarioCsv)"] ne
  have "\<exists>pre lo hi.
      summaryText (ohlcData fixedClock (linesToProcess (csvLines scenarioCsv))) =
        pre @ js ''- Price range: $'' @ numToString lo @ js '' - $'' @ numToString hi \<and>
      lo \<in> set (map ohlc_low (ohlcData fixedClock (linesToProcess (csvLines scenarioCsv)))) \<and>
      (\<forall>d\<in>set (ohlcData fixedClock (linesToProcess (csvLines scenarioCsv))). jsle lo (ohlc_low d)) \<and>
      hi \<in> set (map ohlc_high (ohlcData fixedClock (linesToProcess (csvLines scenarioCsv)))) \<and>
      (\<forall>d\<in>set (ohlcData fixedClock (linesToProcess (csvLines scenarioCsv))). jsle (ohlc_high d) hi)"
    by blast
  then show ?thesis
    using ne unfolding scenario_records by simp
qed

end
